theory Spec2Isabelle
  imports Complex_Main "HOL-Library.AList"
begin

section \<open>Forest loss and carbon emission script: a model of \<open>script.js\<close>\<close>

text \<open>
  The script is a straight-line Earth Engine program. It builds, from the Hansen
  tree-cover and loss-year bands and from an above-ground-biomass image, four families
  of yearly bands (\<open>fc\<close>, \<open>fl\<close>, \<open>cb\<close>, \<open>ce\<close>), weights them by pixel area and
  sums them over the regions of a feature collection.

  The datasets the script loads (the Hansen image, the biomass mosaic, the region
  table of lines 48 to 50) and the engine's pixel-area image are inputs of the model.
  Map display, \<open>print\<close> and the export call are left out: they read the values,
  they do not change them.
\<close>

subsection \<open>Numbers as text\<close>

text \<open>
  Band names are built with \<open>'fc' + (k + 2000)\<close>: the number is appended in decimal.
  The years are integers, written without exponent.
\<close>

definition digit_char :: "nat \<Rightarrow> char" where
  "digit_char d = char_of (48 + d)"

function str_of_nat :: "nat \<Rightarrow> string" where
  "str_of_nat n =
     (if n < 10 then [digit_char n]
      else str_of_nat (n div 10) @ [digit_char (n mod 10)])"
  by pat_completeness auto
termination
  by (relation "measure id") auto

declare str_of_nat.simps [simp del]

definition str_of_int :: "int \<Rightarrow> string" where
  "str_of_int i =
     (if i < 0 then CHR ''-'' # str_of_nat (nat (- i)) else str_of_nat (nat i))"

subsection \<open>Images\<close>

text \<open>
  A pixel of a band either holds a value or is masked (\<open>None\<close>). A single-band image
  is a band name with its pixels; an image with several bands is the list of its
  bands, in the order they were added. The type \<open>'p\<close> of pixel positions is left open.
\<close>

type_synonym ('p, 'a) image = "string \<times> ('p \<Rightarrow> 'a option)"

type_synonym ('p, 'a) stack = "('p, 'a) image list"

datatype error = MissingBand string | UnboundVariable string

definition and_then :: "error + 'a \<Rightarrow> ('a \<Rightarrow> error + 'b) \<Rightarrow> error + 'b" where
  "and_then m f = (case m of Inl e \<Rightarrow> Inl e | Inr x \<Rightarrow> f x)"

definition pixel :: "('p, 'a) image \<Rightarrow> 'p \<Rightarrow> 'a option" where
  "pixel img p = snd img p"

text \<open>\<open>ee.Image(c)\<close>: the constant image, defined everywhere.\<close>

definition constant_image :: "'a \<Rightarrow> ('p, 'a) image" where
  "constant_image c = (''constant'', \<lambda>p. Some c)"

text \<open>
  \<open>img.updateMask(mask)\<close>: a pixel stays only where it is defined in \<open>img\<close> and the
  mask is defined and not zero there. The masks of this script are comparison results,
  0 or 1.
\<close>

definition updateMask :: "('p, 'a) image \<Rightarrow> ('p, 'b::zero) image \<Rightarrow> ('p, 'a) image" where
  "updateMask img msk =
     (fst img, \<lambda>p. case snd img p of
                     None \<Rightarrow> None
                   | Some v \<Rightarrow> (case snd msk p of
                                 None \<Rightarrow> None
                               | Some m \<Rightarrow> if m = 0 then None else Some v))"

text \<open>\<open>img.unmask(v)\<close>: masked pixels take the value \<open>v\<close>, the others keep theirs.\<close>

definition unmask :: "('p, 'a) image \<Rightarrow> 'a \<Rightarrow> ('p, 'a) image" where
  "unmask img v = (fst img, \<lambda>p. case snd img p of None \<Rightarrow> Some v | Some x \<Rightarrow> Some x)"

text \<open>Comparisons with a number give 1 or 0 where the image is defined.\<close>

definition gte :: "('p, 'a::linorder) image \<Rightarrow> 'a \<Rightarrow> ('p, int) image" where
  "gte img c = (fst img, \<lambda>p. map_option (\<lambda>v. if c \<le> v then 1 else 0) (snd img p))"

definition eq :: "('p, 'a) image \<Rightarrow> 'a \<Rightarrow> ('p, int) image" where
  "eq img c = (fst img, \<lambda>p. map_option (\<lambda>v. if v = c then 1 else 0) (snd img p))"

definition neq :: "('p, 'a) image \<Rightarrow> 'a \<Rightarrow> ('p, int) image" where
  "neq img c = (fst img, \<lambda>p. map_option (\<lambda>v. if v \<noteq> c then 1 else 0) (snd img p))"

definition divide :: "('p, real) image \<Rightarrow> real \<Rightarrow> ('p, real) image" where
  "divide img c = (fst img, \<lambda>p. map_option (\<lambda>v. v / c) (snd img p))"

definition rename :: "('p, 'a) image \<Rightarrow> string \<Rightarrow> ('p, 'a) image" where
  "rename img n = (n, snd img)"

text \<open>
  \<open>stack.select(name)\<close> gives the band of that name; asking for a band that is not
  there is an error of the engine.
\<close>

definition select :: "('p, 'a) stack \<Rightarrow> string \<Rightarrow> error + ('p, 'a) image" where
  "select st n =
     (case find (\<lambda>b. fst b = n) st of
        None \<Rightarrow> Inl (MissingBand n)
      | Some b \<Rightarrow> Inr b)"

text \<open>
  \<open>a.addBands(b)\<close> appends the bands of \<open>b\<close>. (The engine renames a band of \<open>b\<close>
  whose name is already taken; the stacks of this script never hold a name twice,
  which is proved below.)
\<close>

definition addBands :: "('p, 'a) stack \<Rightarrow> ('p, 'a) stack \<Rightarrow> ('p, 'a) stack" where
  "addBands a b = a @ b"

text \<open>
  \<open>stack.multiply(img)\<close> with a single-band right operand multiplies every band of
  the stack by it, pixel by pixel, and keeps the band names of the stack.
\<close>

definition multiply :: "('p, real) stack \<Rightarrow> ('p, real) image \<Rightarrow> ('p, real) stack" where
  "multiply st img =
     map (\<lambda>b. (fst b, \<lambda>p. case snd b p of
                            None \<Rightarrow> None
                          | Some v \<Rightarrow> (case snd img p of
                                        None \<Rightarrow> None
                                      | Some w \<Rightarrow> Some (v * w)))) st"

subsection \<open>Expressions\<close>

text \<open>
  \<open>img.expression(text, vars)\<close> evaluates an arithmetic expression pixel by pixel,
  each variable standing for the image bound to it. The three expressions of the
  script use numbers, variables, \<open>+\<close>, \<open>*\<close> and \<open>**\<close>; they are given here parsed.
  Pixel values are real numbers. A pixel has no value (\<open>None\<close>) in the result as
  soon as it has none in an operand. The result carries the band name of the image
  the method is called on; the script renames every such result before it adds it
  to a stack.

  The power \<open>x ** y\<close> is a number only for some operands. For a positive base it
  is the real power. A negative base has a power only for a whole exponent; with a
  fractional one, as in \<open>BIO**(0.89)\<close>, the engine's arithmetic gives no number, and
  the pixel has no value. Zero to a negative exponent is no number either.
\<close>

definition power_value :: "real \<Rightarrow> real \<Rightarrow> real option" where
  "power_value x y =
     (if 0 < x then Some (x powr y)
      else if x = 0 then (if y = 0 then Some 1 else if 0 < y then Some 0 else None)
      else if y = of_int \<lfloor>y\<rfloor> then Some (x powi \<lfloor>y\<rfloor>)
      else None)"

datatype expr =
    Num real
  | Var string
  | Add expr expr
  | Mul expr expr
  | Pow expr expr

fun vars :: "expr \<Rightarrow> string list" where
  "vars (Num c) = []"
| "vars (Var x) = [x]"
| "vars (Add a b) = vars a @ vars b"
| "vars (Mul a b) = vars a @ vars b"
| "vars (Pow a b) = vars a @ vars b"

fun eval :: "(string \<Rightarrow> real option) \<Rightarrow> expr \<Rightarrow> real option" where
  "eval env (Num c) = Some c"
| "eval env (Var x) = env x"
| "eval env (Add a b) =
     (case eval env a of None \<Rightarrow> None
      | Some x \<Rightarrow> (case eval env b of None \<Rightarrow> None | Some y \<Rightarrow> Some (x + y)))"
| "eval env (Mul a b) =
     (case eval env a of None \<Rightarrow> None
      | Some x \<Rightarrow> (case eval env b of None \<Rightarrow> None | Some y \<Rightarrow> Some (x * y)))"
| "eval env (Pow a b) =
     (case eval env a of None \<Rightarrow> None
      | Some x \<Rightarrow> (case eval env b of None \<Rightarrow> None | Some y \<Rightarrow> power_value x y))"

definition expression ::
  "('p, real) image \<Rightarrow> expr \<Rightarrow> (string \<times> ('p, real) image) list \<Rightarrow> error + ('p, real) image" where
  "expression img e env =
     (case find (\<lambda>x. map_of env x = None) (vars e) of
        Some x \<Rightarrow> Inl (UnboundVariable x)
      | None \<Rightarrow>
          Inr (fst img,
               \<lambda>p. eval (\<lambda>x. case map_of env x of None \<Rightarrow> None | Some i \<Rightarrow> snd i p) e))"

subsection \<open>The \<open>for\<close> loops\<close>

text \<open>
  The four loops have the shape \<open>for (var k = lo; k <= hi; k += 1) { ... }\<close>, the body
  reading and replacing one stack. The loop stops at the first error of its body.
  The counter is an integer. The script's numbers are double-precision, in which
  whole numbers are exact up to \<open>2 ^ 53\<close>: the model is the loop for years inside that
  range, and says nothing of larger ones, where \<open>k += 1\<close> no longer moves \<open>k\<close>.
\<close>

function for_loop :: "int \<Rightarrow> int \<Rightarrow> (int \<Rightarrow> 's \<Rightarrow> error + 's) \<Rightarrow> 's \<Rightarrow> error + 's" where
  "for_loop k hi body s =
     (if k \<le> hi
      then (case body k s of Inl e \<Rightarrow> Inl e | Inr s' \<Rightarrow> for_loop (k + 1) hi body s')
      else Inr s)"
  by pat_completeness auto
termination
  by (relation "measure (\<lambda>(k, hi, body, s). nat (hi + 1 - k))") auto

declare for_loop.simps [simp del]

subsection \<open>Inputs\<close>

record config =
  tree_cover :: int
  yr_str :: int
  yr_end :: int

text \<open>
  The two bands of the Hansen image that the script selects. Both hold integers:
  the canopy cover of the year 2000 in percent, and the year of loss counted from
  2000, with 0 for no loss.
\<close>

record 'p hansen =
  treecover2000 :: "'p \<Rightarrow> int option"
  lossyear :: "'p \<Rightarrow> int option"

definition select_treecover2000 :: "'p hansen \<Rightarrow> ('p, int) image" where
  "select_treecover2000 h = (''treecover2000'', treecover2000 h)"

definition select_lossyear :: "'p hansen \<Rightarrow> ('p, int) image" where
  "select_lossyear h = (''lossyear'', lossyear h)"

subsection \<open>Biomass, carbon and carbon dioxide (lines 85 to 92)\<close>

definition bgb :: "('p, real) image \<Rightarrow> error + ('p, real) image" where
  "bgb agb =
     expression agb (Mul (Num 0.489) (Pow (Var ''BIO'') (Num 0.89))) [(''BIO'', agb)]"

definition tbcarbon :: "('p, real) image \<Rightarrow> error + ('p, real) image" where
  "tbcarbon agb =
     and_then (bgb agb) (\<lambda>bgb.
       expression agb (Mul (Add (Var ''bgb'') (Var ''abg'')) (Num 0.5))
         [(''bgb'', bgb), (''abg'', agb)])"

definition teco2 :: "('p, real) image \<Rightarrow> error + ('p, real) image" where
  "teco2 agb =
     and_then (tbcarbon agb) (\<lambda>tbcarbon.
       expression agb (Mul (Var ''totalcarbon'') (Num 3.67)) [(''totalcarbon'', tbcarbon)])"

subsection \<open>Forest cover at the starting date (lines 95 to 97)\<close>

definition fc_str :: "config \<Rightarrow> 'p hansen \<Rightarrow> ('p, real) image" where
  "fc_str cfg h =
     rename
       (updateMask
          (updateMask (constant_image 1) (gte (select_treecover2000 h) (tree_cover cfg)))
          (unmask (gte (select_lossyear h) (yr_str cfg - 2000 + 1)) 1))
       (''fc'' @ str_of_int (yr_str cfg))"

subsection \<open>The yearly stacks (lines 107 to 128)\<close>

definition fl_stack :: "config \<Rightarrow> 'p hansen \<Rightarrow> error + ('p, real) stack" where
  "fl_stack cfg h =
     for_loop (yr_str cfg - 2000 + 1) (yr_end cfg - 2000)
       (\<lambda>k fl_stack.
          let fl = rename (updateMask (fc_str cfg h) (eq (select_lossyear h) k))
                     (''fl'' @ str_of_int (k + 2000))
          in Inr (addBands fl_stack [fl]))
       []"

definition fc_stack :: "config \<Rightarrow> 'p hansen \<Rightarrow> error + ('p, real) stack" where
  "fc_stack cfg h =
     and_then (fl_stack cfg h) (\<lambda>fl_stack.
       for_loop (yr_str cfg - 2000 + 1) (yr_end cfg - 2000)
         (\<lambda>k fc_stack.
            and_then (select fc_stack (''fc'' @ str_of_int (k + 2000 - 1))) (\<lambda>prev.
            and_then (select fl_stack (''fl'' @ str_of_int (k + 2000))) (\<lambda>fl.
              let fc = rename (updateMask prev (neq (unmask fl 0) 1))
                         (''fc'' @ str_of_int (k + 2000))
              in Inr (addBands fc_stack [fc]))))
         [fc_str cfg h])"

definition cb_stack :: "config \<Rightarrow> 'p hansen \<Rightarrow> ('p, real) image \<Rightarrow> error + ('p, real) stack" where
  "cb_stack cfg h agb =
     and_then (tbcarbon agb) (\<lambda>tbcarbon.
     and_then (fc_stack cfg h) (\<lambda>fc_stack.
       for_loop (yr_str cfg - 2000) (yr_end cfg - 2000)
         (\<lambda>k cb_stack.
            and_then (select fc_stack (''fc'' @ str_of_int (k + 2000))) (\<lambda>fc.
              let cb = rename (updateMask tbcarbon (eq fc 1)) (''cb'' @ str_of_int (k + 2000))
              in Inr (addBands cb_stack [cb])))
         []))"

definition ce_stack :: "config \<Rightarrow> 'p hansen \<Rightarrow> ('p, real) image \<Rightarrow> error + ('p, real) stack" where
  "ce_stack cfg h agb =
     and_then (teco2 agb) (\<lambda>teco2.
     and_then (fl_stack cfg h) (\<lambda>fl_stack.
       for_loop (yr_str cfg - 2000 + 1) (yr_end cfg - 2000)
         (\<lambda>k ce_stack.
            and_then (select fl_stack (''fl'' @ str_of_int (k + 2000))) (\<lambda>fl.
              let ce = rename (updateMask teco2 (eq fl 1)) (''ce'' @ str_of_int (k + 2000))
              in Inr (addBands ce_stack [ce])))
         []))"

subsection \<open>The multilayer stack and the pixel areas (lines 131 to 134)\<close>

text \<open>The variable \<open>output\<close> of line 131 is \<open>output_image\<close> here.\<close>

definition output_image :: "config \<Rightarrow> 'p hansen \<Rightarrow> ('p, real) image \<Rightarrow> error + ('p, real) stack" where
  "output_image cfg h agb =
     and_then (fc_stack cfg h) (\<lambda>fc_stack.
     and_then (fl_stack cfg h) (\<lambda>fl_stack.
     and_then (cb_stack cfg h agb) (\<lambda>cb_stack.
     and_then (ce_stack cfg h agb) (\<lambda>ce_stack.
       Inr (addBands (addBands (addBands fc_stack fl_stack) cb_stack) ce_stack)))))"

text \<open>
  \<open>ee.Image.pixelArea()\<close>: the area of each pixel in square metres, defined
  everywhere. The engine supplies it; here it is the function \<open>pixelArea\<close>.
\<close>

definition pixelArea_image :: "('p \<Rightarrow> real) \<Rightarrow> ('p, real) image" where
  "pixelArea_image pixelArea = (''area'', \<lambda>p. Some (pixelArea p))"

definition areas ::
  "config \<Rightarrow> 'p hansen \<Rightarrow> ('p, real) image \<Rightarrow> ('p \<Rightarrow> real) \<Rightarrow> error + ('p, real) stack" where
  "areas cfg h agb pixelArea =
     and_then (output_image cfg h agb) (\<lambda>out.
       Inr (multiply out (divide (pixelArea_image pixelArea) 10000)))"

subsection \<open>Regions and their statistics (lines 39 to 41, 56, 68 to 73, 137)\<close>

text \<open>
  A feature has a geometry and a dictionary of properties. Of the geometry the script
  uses its area in square metres (\<open>feature.geometry().area()\<close>) and, in the reducer,
  the pixels that the engine samples inside it at the given scale.
\<close>

datatype property_value = PNum real | PStr string

record 'p feature =
  geometry_area :: real
  geometry_pixels :: "'p list"
  properties :: "(string \<times> property_value) list"

definition set_property :: "'p feature \<Rightarrow> string \<Rightarrow> property_value \<Rightarrow> 'p feature" where
  "set_property f k v = f\<lparr>properties := AList.update k v (properties f)\<rparr>"

definition get_property :: "'p feature \<Rightarrow> string \<Rightarrow> property_value option" where
  "get_property f k = map_of (properties f) k"

text \<open>The first \<open>addArea\<close>, of lines 39 to 41.\<close>

definition addArea :: "'p feature \<Rightarrow> 'p feature" where
  "addArea feature = set_property feature ''ha'' (PNum (geometry_area feature * 0.0001))"

text \<open>The second \<open>addArea\<close>, of lines 68 to 70, which replaces the first from there on.\<close>

definition addArea' :: "'p feature \<Rightarrow> 'p feature" where
  "addArea' feature = set_property feature ''area_ha'' (PNum (geometry_area feature * 0.0001))"

text \<open>
  \<open>image.reduceRegions(collection, sum)\<close>: every feature of the collection gets, for
  every band, a property of the band's name holding the sum of the band's defined
  pixels inside the feature. Masked pixels add nothing.
\<close>

definition band_sum :: "('p, real) image \<Rightarrow> 'p list \<Rightarrow> real" where
  "band_sum b ps = sum_list (map (\<lambda>p. case snd b p of None \<Rightarrow> 0 | Some v \<Rightarrow> v) ps)"

definition reduceRegions :: "('p, real) stack \<Rightarrow> 'p feature list \<Rightarrow> 'p feature list" where
  "reduceRegions img collection =
     map (\<lambda>f. foldl (\<lambda>g b. set_property g (fst b) (PNum (band_sum b (geometry_pixels f)))) f img)
       collection"

text \<open>
  The script from line 56 on, with the variables it assigns twice (\<open>addArea\<close>,
  \<open>sa\<close>) bound in the order of the text. Its result is the collection \<open>stats\<close>
  that is exported. The region collection \<open>sa\<close> of lines 48 to 50 is a parameter:
  as the lines are written, line 50 calls \<open>filter\<close> on the string of line 48, which
  is a \<open>TypeError\<close> in JavaScript whatever the settings are, so \<open>script\<close> describes
  what follows once a region collection is there, not a run of the file as it is.
\<close>

definition script ::
  "config \<Rightarrow> 'p feature list \<Rightarrow> 'p hansen \<Rightarrow> ('p, real) image \<Rightarrow> ('p \<Rightarrow> real)
     \<Rightarrow> error + 'p feature list" where
  "script cfg sa h agb pixelArea =
     (let add_area = addArea;
          sa_area = map add_area sa;
          add_area = addArea';
          sa = map add_area sa
      in and_then (areas cfg h agb pixelArea) (\<lambda>areas.
           Inr (reduceRegions areas sa_area)))"

subsection \<open>What the loops compute, band by band\<close>

text \<open>
  The functions below give each yearly band directly, as a name and a condition on
  the pixel, indexed like the loops by \<open>k\<close> (the year minus 2000). They serve
  the proofs: every stack is shown to be the list of these bands.
\<close>

definition fl_band :: "config \<Rightarrow> 'p hansen \<Rightarrow> int \<Rightarrow> ('p, real) image" where
  "fl_band cfg h k =
     (''fl'' @ str_of_int (k + 2000),
      \<lambda>p. if snd (fc_str cfg h) p \<noteq> None \<and> lossyear h p = Some k then Some 1 else None)"

definition fc_band :: "config \<Rightarrow> 'p hansen \<Rightarrow> int \<Rightarrow> ('p, real) image" where
  "fc_band cfg h k =
     (''fc'' @ str_of_int (k + 2000),
      \<lambda>p. case snd (fc_str cfg h) p of
             None \<Rightarrow> None
           | Some v \<Rightarrow>
               (case lossyear h p of
                  None \<Rightarrow> Some 1
                | Some n \<Rightarrow> if yr_str cfg - 2000 < n \<and> n \<le> k then None else Some 1))"

text \<open>
  The biomass pixels from which the script's expressions get a number: the defined
  pixels that are not negative. There \<open>bgb_value\<close>, \<open>tbcarbon_value\<close> and
  \<open>teco2_value\<close> are the values of the three expressions.
\<close>

definition biomass :: "('p, real) image \<Rightarrow> 'p \<Rightarrow> real option" where
  "biomass agb p =
     (case snd agb p of None \<Rightarrow> None | Some a \<Rightarrow> if a < 0 then None else Some a)"

definition bgb_value :: "real \<Rightarrow> real" where
  "bgb_value a = 0.489 * a powr 0.89"

definition tbcarbon_value :: "real \<Rightarrow> real" where
  "tbcarbon_value a = (bgb_value a + a) * 0.5"

definition teco2_value :: "real \<Rightarrow> real" where
  "teco2_value a = tbcarbon_value a * 3.67"

definition cb_band :: "config \<Rightarrow> 'p hansen \<Rightarrow> ('p, real) image \<Rightarrow> int \<Rightarrow> ('p, real) image" where
  "cb_band cfg h agb k =
     (''cb'' @ str_of_int (k + 2000),
      \<lambda>p. if snd (fc_band cfg h k) p = Some 1 then map_option tbcarbon_value (biomass agb p) else None)"

definition ce_band :: "config \<Rightarrow> 'p hansen \<Rightarrow> ('p, real) image \<Rightarrow> int \<Rightarrow> ('p, real) image" where
  "ce_band cfg h agb k =
     (''ce'' @ str_of_int (k + 2000),
      \<lambda>p. if snd (fl_band cfg h k) p = Some 1 then map_option teco2_value (biomass agb p) else None)"

definition all_bands :: "config \<Rightarrow> 'p hansen \<Rightarrow> ('p, real) image \<Rightarrow> ('p, real) stack" where
  "all_bands cfg h agb =
     map (fc_band cfg h) [yr_str cfg - 2000..max (yr_str cfg - 2000) (yr_end cfg - 2000)]
     @ map (fl_band cfg h) [yr_str cfg - 2000 + 1..yr_end cfg - 2000]
     @ map (cb_band cfg h agb) [yr_str cfg - 2000..yr_end cfg - 2000]
     @ map (ce_band cfg h agb) [yr_str cfg - 2000 + 1..yr_end cfg - 2000]"

subsection \<open>Example inputs\<close>

text \<open>
  A raster of two by two pixels, with the settings of the script's header but the
  end year 2002. In \<open>scenario_hansen\<close> the loss year of a pixel that never lost its
  forest is the value 0, as in the Hansen data; in \<open>example_hansen\<close> such pixels are
  masked in the loss-year band.
\<close>

definition example_config :: config where
  "example_config = \<lparr>tree_cover = 30, yr_str = 2000, yr_end = 2002\<rparr>"

definition scenario_hansen :: "(int \<times> int) hansen" where
  "scenario_hansen =
     \<lparr>treecover2000 = (\<lambda>p. Some (if p = (0, 0) \<or> p = (0, 1) then 50 else 10)),
      lossyear = (\<lambda>p. Some (if p = (0, 1) then 1 else 0))\<rparr>"

definition example_hansen :: "(int \<times> int) hansen" where
  "example_hansen =
     \<lparr>treecover2000 = (\<lambda>p. Some (if p = (1, 1) then 10 else 50)),
      lossyear = (\<lambda>p. if p = (0, 1) then Some 1 else if p = (1, 0) then Some 2 else None)\<rparr>"

definition example_agb :: "(int \<times> int, real) image" where
  "example_agb = (''agb'', \<lambda>p. if p = (1, 0) then None else Some 1)"

definition negative_agb :: "(int \<times> int, real) image" where
  "negative_agb = (''agb'', \<lambda>p. Some (- 1))"

definition example_pixelArea :: "int \<times> int \<Rightarrow> real" where
  "example_pixelArea p = 900"

definition example_sa :: "(int \<times> int) feature list" where
  "example_sa =
     [\<lparr>geometry_area = 3600, geometry_pixels = [(0, 0), (0, 1), (1, 0), (1, 1)],
       properties = [(''COUNTRY'', PStr ''Brazil'')]\<rparr>]"

text \<open>A configuration that is wrong in three ways: the threshold is above 100, the end year
  lies before the start year, and it lies before 2000.\<close>

definition invalid_config :: config where
  "invalid_config = \<lparr>tree_cover = 150, yr_str = 2005, yr_end = 1990\<rparr>"

section \<open>Properties\<close>

subsection \<open>Decimal numerals are unambiguous\<close>

lemma digit_char_inj: "a < 10 \<Longrightarrow> b < 10 \<Longrightarrow> digit_char a = digit_char b \<Longrightarrow> a = b"
  unfolding digit_char_def
  by (simp add: char_of_eq_iff take_bit_nat_eq_self)

lemma digit_char_not_minus: "d < 10 \<Longrightarrow> digit_char d \<noteq> CHR ''-''"
proof -
  assume d: "d < 10"
  have "CHR ''-'' = char_of (45::nat)" by code_simp
  then show ?thesis using d unfolding digit_char_def
    by (simp add: char_of_eq_iff take_bit_nat_eq_self)
qed

lemma str_of_nat_nonempty: "str_of_nat n \<noteq> []"
  by (subst str_of_nat.simps) simp

lemma str_of_nat_inj: "str_of_nat a = str_of_nat b \<Longrightarrow> a = b"
proof (induction a arbitrary: b rule: str_of_nat.induct)
  case (1 n)
  show ?case
  proof (cases "n < 10")
    case True
    show ?thesis
    proof (cases "b < 10")
      case b: True
      with True 1(2) show ?thesis
        by (simp add: str_of_nat.simps[of n] str_of_nat.simps[of b] digit_char_inj)
    next
      case b: False
      with True 1(2) show ?thesis
        using str_of_nat_nonempty[of "b div 10"]
        by (simp add: str_of_nat.simps[of n] str_of_nat.simps[of b])
    qed
  next
    case False
    show ?thesis
    proof (cases "b < 10")
      case b: True
      with False 1(2) show ?thesis
        using str_of_nat_nonempty[of "n div 10"]
        by (simp add: str_of_nat.simps[of n] str_of_nat.simps[of b])
    next
      case b: False
      from False b 1(2) have e: "str_of_nat (n div 10) = str_of_nat (b div 10)"
        and d: "digit_char (n mod 10) = digit_char (b mod 10)"
        by (simp_all add: str_of_nat.simps[of n] str_of_nat.simps[of b])
      from 1(1)[OF False e] have "n div 10 = b div 10" .
      moreover from d have "n mod 10 = b mod 10" by (simp add: digit_char_inj)
      ultimately show ?thesis by (metis div_mult_mod_eq)
    qed
  qed
qed

lemma str_of_nat_no_minus: "CHR ''-'' \<notin> set (str_of_nat n)"
proof (induction n rule: str_of_nat.induct)
  case (1 n)
  show ?case
  proof (cases "n < 10")
    case True
    then show ?thesis
      using digit_char_not_minus[of n] by (auto simp add: str_of_nat.simps[of n])
  next
    case False
    then show ?thesis
      using 1 digit_char_not_minus[of "n mod 10"] by (auto simp add: str_of_nat.simps[of n])
  qed
qed

lemma str_of_int_inj: "str_of_int a = str_of_int b \<Longrightarrow> a = b"
proof -
  assume e: "str_of_int a = str_of_int b"
  have m: "\<And>n r. str_of_nat n \<noteq> CHR ''-'' # r"
    using str_of_nat_no_minus by (metis list.set_intros(1))
  show ?thesis
  proof (cases "a < 0")
    case True
    show ?thesis
    proof (cases "b < 0")
      case b: True
      with True e have "str_of_nat (nat (- a)) = str_of_nat (nat (- b))"
        by (simp add: str_of_int_def)
      then have "nat (- a) = nat (- b)" by (rule str_of_nat_inj)
      with True b show ?thesis by simp
    next
      case b: False
      with True e m[of "nat b" "str_of_nat (nat (- a))"] show ?thesis
        by (simp add: str_of_int_def)
    qed
  next
    case False
    show ?thesis
    proof (cases "b < 0")
      case b: True
      with False e m[of "nat a" "str_of_nat (nat (- b))"] show ?thesis
        by (simp add: str_of_int_def)
    next
      case b: False
      with False e have "str_of_nat (nat a) = str_of_nat (nat b)"
        by (simp add: str_of_int_def)
      then have "nat a = nat b" by (rule str_of_nat_inj)
      with False b show ?thesis by simp
    qed
  qed
qed

lemma str_of_int_eq_iff [simp]: "str_of_int a = str_of_int b \<longleftrightarrow> a = b"
  using str_of_int_inj by blast

subsection \<open>Loops\<close>

lemma for_loop_step:
  "k \<le> hi \<Longrightarrow> for_loop k hi body s =
     (case body k s of Inl e \<Rightarrow> Inl e | Inr s' \<Rightarrow> for_loop (k + 1) hi body s')"
  by (subst for_loop.simps) simp

lemma for_loop_done: "hi < k \<Longrightarrow> for_loop k hi body s = Inr s"
  by (subst for_loop.simps) simp

lemma for_loop_map:
  assumes "a \<le> lo"
    and "\<And>j. lo \<le> j \<Longrightarrow> j \<le> hi \<Longrightarrow>
            body j (map f [a..j - 1]) = Inr (map f [a..j - 1] @ [f j])"
  shows "for_loop lo hi body (map f [a..lo - 1]) = Inr (map f [a..max (lo - 1) hi])"
  using assms
proof (induction "nat (hi + 1 - lo)" arbitrary: lo)
  case 0
  then have lt: "hi < lo" by simp
  have "max (lo - 1) hi = lo - 1" using lt by simp
  with lt show ?case by (simp only: for_loop_done)
next
  case (Suc n)
  then have le: "lo \<le> hi" by simp
  have n: "n = nat (hi + 1 - (lo + 1))" using Suc(2) by simp
  have a: "a \<le> lo + 1" using Suc(3) by simp
  have step: "\<And>j. lo + 1 \<le> j \<Longrightarrow> j \<le> hi \<Longrightarrow>
            body j (map f [a..j - 1]) = Inr (map f [a..j - 1] @ [f j])"
    using Suc(4) by simp
  have ih: "for_loop (lo + 1) hi body (map f [a..lo + 1 - 1]) = Inr (map f [a..max (lo + 1 - 1) hi])"
    by (rule Suc(1)[OF n a step])
  have app: "map f [a..lo - 1] @ [f lo] = map f [a..lo]"
    using Suc(3) by (simp add: upto_rec2[of a lo])
  show ?case
    using le ih Suc(4)[of lo] app by (simp add: for_loop_step max_def)
qed

subsection \<open>Selecting a band by its name\<close>

lemma select_map:
  assumes "\<And>j. fst (f j) = pre @ str_of_int (j + c)"
    and "k \<in> set ks"
  shows "select (map f ks) (pre @ str_of_int (k + c)) = Inr (f k)"
  using assms(2)
proof (induction ks)
  case Nil
  then show ?case by simp
next
  case (Cons x xs)
  then show ?case
    by (cases "x = k") (auto simp: select_def assms(1))
qed

subsection \<open>The baseline band and the yearly stacks\<close>

lemma fc_str_pixel:
  "snd (fc_str cfg h) p =
     (case treecover2000 h p of
        None \<Rightarrow> None
      | Some t \<Rightarrow>
          if t < tree_cover cfg then None
          else (case lossyear h p of
                  None \<Rightarrow> Some 1
                | Some n \<Rightarrow> if yr_str cfg - 2000 + 1 \<le> n then Some 1 else None))"
  by (simp add: fc_str_def rename_def updateMask_def constant_image_def gte_def unmask_def
      select_treecover2000_def select_lossyear_def split: option.splits)

lemma fc_str_name: "fst (fc_str cfg h) = ''fc'' @ str_of_int (yr_str cfg)"
  by (simp add: fc_str_def rename_def)

lemma fc_str_one: "snd (fc_str cfg h) p = None \<or> snd (fc_str cfg h) p = Some 1"
  by (simp add: fc_str_pixel split: option.splits)

lemma fc_str_Some: "snd (fc_str cfg h) p = Some y \<Longrightarrow> y = 1"
  using fc_str_one[of cfg h p] by simp

lemma fl_body:
  "rename (updateMask (fc_str cfg h) (eq (select_lossyear h) k)) (''fl'' @ str_of_int (k + 2000))
     = fl_band cfg h k"
proof -
  have "\<And>p. snd (updateMask (fc_str cfg h) (eq (select_lossyear h) k)) p = snd (fl_band cfg h k) p"
    by (auto simp: updateMask_def eq_def select_lossyear_def fl_band_def
        split: option.splits dest: fc_str_Some)
  then show ?thesis
    by (simp add: rename_def fl_band_def fun_eq_iff)
qed

lemma fl_stack_eq:
  "fl_stack cfg h = Inr (map (fl_band cfg h) [yr_str cfg - 2000 + 1..yr_end cfg - 2000])"
proof -
  let ?lo = "yr_str cfg - 2000 + 1" and ?hi = "yr_end cfg - 2000"
  let ?body = "\<lambda>k fl_stack.
          let fl = rename (updateMask (fc_str cfg h) (eq (select_lossyear h) k))
                     (''fl'' @ str_of_int (k + 2000))
          in Inr (addBands fl_stack [fl])"
  have "for_loop ?lo ?hi ?body (map (fl_band cfg h) [?lo..?lo - 1])
          = Inr (map (fl_band cfg h) [?lo..max (?lo - 1) ?hi])"
    by (rule for_loop_map) (simp, simp only: Let_def fl_body addBands_def)
  moreover have "[?lo..max (?lo - 1) ?hi] = [?lo..?hi]"
    by (simp add: max_def)
  ultimately show ?thesis
    by (simp add: fl_stack_def)
qed

lemma fl_band_name: "fst (fl_band cfg h k) = ''fl'' @ str_of_int (k + 2000)"
  by (simp add: fl_band_def)

lemma fc_band_name: "fst (fc_band cfg h k) = ''fc'' @ str_of_int (k + 2000)"
  by (simp add: fc_band_def)

lemma fc_band_pixel:
  "snd (fc_band cfg h k) p =
     (if snd (fc_str cfg h) p \<noteq> None \<and>
         (\<forall>n. lossyear h p = Some n \<longrightarrow> \<not> (yr_str cfg - 2000 < n \<and> n \<le> k))
      then Some 1 else None)"
  by (auto simp: fc_band_def split: option.splits)

lemma fc_band_start: "fc_band cfg h (yr_str cfg - 2000) = fc_str cfg h"
proof -
  have "\<And>p. snd (fc_band cfg h (yr_str cfg - 2000)) p = snd (fc_str cfg h) p"
    by (auto simp: fc_band_pixel dest: fc_str_Some)
  then have "snd (fc_band cfg h (yr_str cfg - 2000)) = snd (fc_str cfg h)"
    by (simp add: fun_eq_iff)
  moreover have "fst (fc_band cfg h (yr_str cfg - 2000)) = fst (fc_str cfg h)"
    by (simp add: fc_band_name fc_str_name)
  ultimately show ?thesis by (simp add: prod_eq_iff)
qed

lemma fc_body:
  assumes "yr_str cfg - 2000 < k"
  shows "rename (updateMask (fc_band cfg h (k - 1)) (neq (unmask (fl_band cfg h k) 0) 1))
           (''fc'' @ str_of_int (k + 2000)) = fc_band cfg h k"
proof -
  have "\<And>p. snd (updateMask (fc_band cfg h (k - 1)) (neq (unmask (fl_band cfg h k) 0) 1)) p
            = snd (fc_band cfg h k) p"
  proof -
    fix p
    show "snd (updateMask (fc_band cfg h (k - 1)) (neq (unmask (fl_band cfg h k) 0) 1)) p
            = snd (fc_band cfg h k) p"
    proof (cases "lossyear h p")
      case None
      then show ?thesis
        by (simp add: updateMask_def neq_def unmask_def fc_band_pixel fl_band_def)
    next
      case (Some n)
      have "n \<le> k \<longleftrightarrow> n \<le> k - 1 \<or> n = k" by auto
      with Some assms show ?thesis
        by (auto simp add: updateMask_def neq_def unmask_def fc_band_pixel fl_band_def)
    qed
  qed
  then show ?thesis
    by (simp add: rename_def prod_eq_iff fc_band_name fun_eq_iff)
qed

lemma fc_stack_eq:
  "fc_stack cfg h =
     Inr (map (fc_band cfg h) [yr_str cfg - 2000..max (yr_str cfg - 2000) (yr_end cfg - 2000)])"
proof -
  let ?k0 = "yr_str cfg - 2000" and ?hi = "yr_end cfg - 2000"
  let ?fls = "map (fl_band cfg h) [?k0 + 1..?hi]"
  let ?body = "\<lambda>k fc_stack.
            and_then (select fc_stack (''fc'' @ str_of_int (k + 2000 - 1))) (\<lambda>prev.
            and_then (select ?fls (''fl'' @ str_of_int (k + 2000))) (\<lambda>fl.
              let fc = rename (updateMask prev (neq (unmask fl 0) 1))
                         (''fc'' @ str_of_int (k + 2000))
              in Inr (addBands fc_stack [fc])))"
  have step: "?body j (map (fc_band cfg h) [?k0..j - 1])
                = Inr (map (fc_band cfg h) [?k0..j - 1] @ [fc_band cfg h j])"
    if "?k0 + 1 \<le> j" "j \<le> ?hi" for j
  proof -
    have "j - 1 \<in> set [?k0..j - 1]" using that by simp
    then have "select (map (fc_band cfg h) [?k0..j - 1]) (''fc'' @ str_of_int (j - 1 + 2000))
                 = Inr (fc_band cfg h (j - 1))"
      by (rule select_map[rotated]) (rule fc_band_name)
    moreover have "j - 1 + 2000 = j + 2000 - 1" by simp
    ultimately have prev: "select (map (fc_band cfg h) [?k0..j - 1]) (''fc'' @ str_of_int (j + 2000 - 1))
                 = Inr (fc_band cfg h (j - 1))"
      by simp
    have "j \<in> set [?k0 + 1..?hi]" using that by simp
    then have fl: "select ?fls (''fl'' @ str_of_int (j + 2000)) = Inr (fl_band cfg h j)"
      by (rule select_map[rotated]) (rule fl_band_name)
    have "?k0 < j" using that by simp
    from fc_body[OF this] prev fl show ?thesis
      by (simp add: and_then_def addBands_def)
  qed
  have "for_loop (?k0 + 1) ?hi ?body (map (fc_band cfg h) [?k0..?k0 + 1 - 1])
          = Inr (map (fc_band cfg h) [?k0..max (?k0 + 1 - 1) ?hi])"
    by (rule for_loop_map[where f = "fc_band cfg h"]) (simp, rule step)
  then have "for_loop (?k0 + 1) ?hi ?body [fc_str cfg h]
          = Inr (map (fc_band cfg h) [?k0..max ?k0 ?hi])"
    by (simp add: fc_band_start)
  then show ?thesis
    by (simp add: fc_stack_def fl_stack_eq and_then_def)
qed

subsection \<open>Carbon bands and the assembled image\<close>

lemma power_value_089:
  "power_value a (89 / 100) = (if a < 0 then None else Some (a powr (89 / 100)))"
proof -
  have "(89 / 100::real) \<noteq> of_int \<lfloor>89 / 100::real\<rfloor>" by simp
  then show ?thesis by (auto simp: power_value_def)
qed

lemma bgb_eq: "bgb agb = Inr (fst agb, \<lambda>p. map_option bgb_value (biomass agb p))"
  by (auto simp: bgb_def expression_def bgb_value_def biomass_def power_value_089 fun_eq_iff
      split: option.splits)

lemma tbcarbon_eq: "tbcarbon agb = Inr (fst agb, \<lambda>p. map_option tbcarbon_value (biomass agb p))"
  by (auto simp: tbcarbon_def bgb_eq and_then_def expression_def tbcarbon_value_def biomass_def
      fun_eq_iff
      split: option.splits)

lemma teco2_eq: "teco2 agb = Inr (fst agb, \<lambda>p. map_option teco2_value (biomass agb p))"
  by (auto simp: teco2_def tbcarbon_eq and_then_def expression_def teco2_value_def biomass_def
      fun_eq_iff
      split: option.splits)

lemma cb_body:
  "rename (updateMask (fst agb, \<lambda>p. map_option tbcarbon_value (biomass agb p)) (eq (fc_band cfg h k) 1))
     (''cb'' @ str_of_int (k + 2000)) = cb_band cfg h agb k"
  by (auto simp: rename_def updateMask_def eq_def cb_band_def fun_eq_iff split: option.splits)

lemma ce_body:
  "rename (updateMask (fst agb, \<lambda>p. map_option teco2_value (biomass agb p)) (eq (fl_band cfg h k) 1))
     (''ce'' @ str_of_int (k + 2000)) = ce_band cfg h agb k"
  by (auto simp: rename_def updateMask_def eq_def ce_band_def fun_eq_iff split: option.splits)

lemma cb_stack_eq:
  "cb_stack cfg h agb = Inr (map (cb_band cfg h agb) [yr_str cfg - 2000..yr_end cfg - 2000])"
proof -
  let ?k0 = "yr_str cfg - 2000" and ?hi = "yr_end cfg - 2000"
  let ?fcs = "map (fc_band cfg h) [?k0..max ?k0 ?hi]"
  let ?tc = "(fst agb, \<lambda>p. map_option tbcarbon_value (biomass agb p))"
  let ?body = "\<lambda>k cb_stack.
            and_then (select ?fcs (''fc'' @ str_of_int (k + 2000))) (\<lambda>fc.
              let cb = rename (updateMask ?tc (eq fc 1)) (''cb'' @ str_of_int (k + 2000))
              in Inr (addBands cb_stack [cb]))"
  have step: "?body j (map (cb_band cfg h agb) [?k0..j - 1])
                = Inr (map (cb_band cfg h agb) [?k0..j - 1] @ [cb_band cfg h agb j])"
    if "?k0 \<le> j" "j \<le> ?hi" for j
  proof -
    have "j \<in> set [?k0..max ?k0 ?hi]" using that by simp
    then have "select ?fcs (''fc'' @ str_of_int (j + 2000)) = Inr (fc_band cfg h j)"
      by (rule select_map[rotated]) (rule fc_band_name)
    then show ?thesis
      by (simp only: and_then_def sum.case Let_def cb_body addBands_def)
  qed
  have "for_loop ?k0 ?hi ?body (map (cb_band cfg h agb) [?k0..?k0 - 1])
          = Inr (map (cb_band cfg h agb) [?k0..max (?k0 - 1) ?hi])"
    by (rule for_loop_map[where f = "cb_band cfg h agb"]) (simp, rule step)
  moreover have "[?k0..max (?k0 - 1) ?hi] = [?k0..?hi]"
    by (simp add: max_def)
  ultimately show ?thesis
    by (simp add: cb_stack_def tbcarbon_eq fc_stack_eq and_then_def)
qed

lemma ce_stack_eq:
  "ce_stack cfg h agb = Inr (map (ce_band cfg h agb) [yr_str cfg - 2000 + 1..yr_end cfg - 2000])"
proof -
  let ?lo = "yr_str cfg - 2000 + 1" and ?hi = "yr_end cfg - 2000"
  let ?fls = "map (fl_band cfg h) [?lo..?hi]"
  let ?te = "(fst agb, \<lambda>p. map_option teco2_value (biomass agb p))"
  let ?body = "\<lambda>k ce_stack.
            and_then (select ?fls (''fl'' @ str_of_int (k + 2000))) (\<lambda>fl.
              let ce = rename (updateMask ?te (eq fl 1)) (''ce'' @ str_of_int (k + 2000))
              in Inr (addBands ce_stack [ce]))"
  have step: "?body j (map (ce_band cfg h agb) [?lo..j - 1])
                = Inr (map (ce_band cfg h agb) [?lo..j - 1] @ [ce_band cfg h agb j])"
    if "?lo \<le> j" "j \<le> ?hi" for j
  proof -
    have "j \<in> set [?lo..?hi]" using that by simp
    then have "select ?fls (''fl'' @ str_of_int (j + 2000)) = Inr (fl_band cfg h j)"
      by (rule select_map[rotated]) (rule fl_band_name)
    then show ?thesis
      by (simp only: and_then_def sum.case Let_def ce_body addBands_def)
  qed
  have "for_loop ?lo ?hi ?body (map (ce_band cfg h agb) [?lo..?lo - 1])
          = Inr (map (ce_band cfg h agb) [?lo..max (?lo - 1) ?hi])"
    by (rule for_loop_map[where f = "ce_band cfg h agb"]) (simp, rule step)
  moreover have "[?lo..max (?lo - 1) ?hi] = [?lo..?hi]"
    by (simp add: max_def)
  ultimately show ?thesis
    by (simp add: ce_stack_def teco2_eq fl_stack_eq and_then_def)
qed

lemma output_image_eq: "output_image cfg h agb = Inr (all_bands cfg h agb)"
  by (simp add: output_image_def fc_stack_eq fl_stack_eq cb_stack_eq ce_stack_eq and_then_def
      addBands_def all_bands_def)

lemma areas_eq:
  "areas cfg h agb pixelArea =
     Inr (multiply (all_bands cfg h agb) (divide (pixelArea_image pixelArea) 10000))"
  by (simp add: areas_def output_image_eq and_then_def)

lemma script_eq:
  "script cfg sa h agb pixelArea =
     Inr (reduceRegions (multiply (all_bands cfg h agb) (divide (pixelArea_image pixelArea) 10000))
            (map addArea sa))"
  by (simp add: script_def areas_eq and_then_def)

subsection \<open>Band lookup and evaluation helpers\<close>

lemma str_of_int_2000: "str_of_int 2000 = ''2000''" by code_simp
lemma str_of_int_2001: "str_of_int 2001 = ''2001''" by code_simp
lemma str_of_int_2002: "str_of_int 2002 = ''2002''" by code_simp

lemma select_fc_band:
  assumes "yr_str cfg \<le> y" "y \<le> max (yr_str cfg) (yr_end cfg)"
  shows "select (map (fc_band cfg h) [yr_str cfg - 2000..max (yr_str cfg - 2000) (yr_end cfg - 2000)])
           (''fc'' @ str_of_int y) = Inr (fc_band cfg h (y - 2000))"
proof -
  have "y - 2000 \<in> set [yr_str cfg - 2000..max (yr_str cfg - 2000) (yr_end cfg - 2000)]"
    using assms by auto
  then have "select (map (fc_band cfg h) [yr_str cfg - 2000..max (yr_str cfg - 2000) (yr_end cfg - 2000)])
           (''fc'' @ str_of_int (y - 2000 + 2000)) = Inr (fc_band cfg h (y - 2000))"
    by (rule select_map[rotated]) (rule fc_band_name)
  then show ?thesis by simp
qed

lemma select_fl_band:
  assumes "yr_str cfg < y" "y \<le> yr_end cfg"
  shows "select (map (fl_band cfg h) [yr_str cfg - 2000 + 1..yr_end cfg - 2000])
           (''fl'' @ str_of_int y) = Inr (fl_band cfg h (y - 2000))"
proof -
  have "y - 2000 \<in> set [yr_str cfg - 2000 + 1..yr_end cfg - 2000]"
    using assms by auto
  then have "select (map (fl_band cfg h) [yr_str cfg - 2000 + 1..yr_end cfg - 2000])
           (''fl'' @ str_of_int (y - 2000 + 2000)) = Inr (fl_band cfg h (y - 2000))"
    by (rule select_map[rotated]) (rule fl_band_name)
  then show ?thesis by simp
qed

lemma select_cb_band:
  assumes "yr_str cfg \<le> y" "y \<le> yr_end cfg"
  shows "select (map (cb_band cfg h agb) [yr_str cfg - 2000..yr_end cfg - 2000])
           (''cb'' @ str_of_int y) = Inr (cb_band cfg h agb (y - 2000))"
proof -
  have "y - 2000 \<in> set [yr_str cfg - 2000..yr_end cfg - 2000]"
    using assms by auto
  then have "select (map (cb_band cfg h agb) [yr_str cfg - 2000..yr_end cfg - 2000])
           (''cb'' @ str_of_int (y - 2000 + 2000)) = Inr (cb_band cfg h agb (y - 2000))"
    by (rule select_map[rotated]) (simp add: cb_band_def)
  then show ?thesis by simp
qed

subsection \<open>Band names, pixel areas and region properties\<close>

lemma upto_0_2: "[0..2::int] = [0, 1, 2]" by (simp add: upto.simps)
lemma upto_1_2: "[1..2::int] = [1, 2]" by (simp add: upto.simps)

lemma length_multiply: "length (multiply st img) = length st"
  by (simp add: multiply_def)

lemma names_multiply: "map fst (multiply st img) = map fst st"
  by (simp add: multiply_def comp_def)

lemma nth_multiply:
  "i < length st \<Longrightarrow>
   multiply st img ! i =
     (fst (st ! i), \<lambda>p. case snd (st ! i) p of
                           None \<Rightarrow> None
                         | Some v \<Rightarrow> (case snd img p of None \<Rightarrow> None | Some w \<Rightarrow> Some (v * w)))"
  by (simp add: multiply_def)

lemma all_bands_names:
  "map fst (all_bands cfg h agb) =
     map (\<lambda>k. ''fc'' @ str_of_int (k + 2000))
       [yr_str cfg - 2000..max (yr_str cfg - 2000) (yr_end cfg - 2000)]
     @ map (\<lambda>k. ''fl'' @ str_of_int (k + 2000)) [yr_str cfg - 2000 + 1..yr_end cfg - 2000]
     @ map (\<lambda>k. ''cb'' @ str_of_int (k + 2000)) [yr_str cfg - 2000..yr_end cfg - 2000]
     @ map (\<lambda>k. ''ce'' @ str_of_int (k + 2000)) [yr_str cfg - 2000 + 1..yr_end cfg - 2000]"
  by (simp add: all_bands_def comp_def fc_band_def fl_band_def cb_band_def ce_band_def)

lemma all_bands_nonempty: "all_bands cfg h agb \<noteq> []"
  by (simp add: all_bands_def)

text \<open>No band name occurs twice in the assembled image: \<open>addBands\<close> never meets a
  name that is already taken.\<close>

lemma all_bands_distinct: "distinct (map fst (all_bands cfg h agb))"
  by (auto simp add: all_bands_names distinct_map inj_on_def)

lemma ha_not_a_band: "''ha'' \<notin> fst ` set (all_bands cfg h agb)"
proof -
  have "''ha'' \<notin> set (map fst (all_bands cfg h agb))"
    by (auto simp add: all_bands_names)
  then show ?thesis by simp
qed

lemma area_ha_not_a_band: "''area_ha'' \<notin> fst ` set (all_bands cfg h agb)"
proof -
  have "''area_ha'' \<notin> set (map fst (all_bands cfg h agb))"
    by (auto simp add: all_bands_names)
  then show ?thesis by simp
qed

lemma get_set_property:
  "get_property (set_property f k v) k' = (if k' = k then Some v else get_property f k')"
  by (simp add: get_property_def set_property_def update_conv')

lemma get_property_foldl:
  "n \<notin> fst ` set img \<Longrightarrow>
   get_property (foldl (\<lambda>g b. set_property g (fst b) (w b)) f img) n = get_property f n"
  by (induction img arbitrary: f) (auto simp: get_set_property)

lemma length_reduceRegions: "length (reduceRegions img coll) = length coll"
  by (simp add: reduceRegions_def)

lemma get_property_reduceRegions:
  assumes "i < length coll" and "n \<notin> fst ` set img"
  shows "get_property (reduceRegions img coll ! i) n = get_property (coll ! i) n"
  using assms by (simp add: reduceRegions_def get_property_foldl)

lemma select_baseline_band:
  "select (all_bands cfg h agb) (''fc'' @ str_of_int (yr_str cfg)) = Inr (fc_str cfg h)"
proof -
  have "[yr_str cfg - 2000..max (yr_str cfg - 2000) (yr_end cfg - 2000)]
          = (yr_str cfg - 2000) # [yr_str cfg - 2000 + 1..max (yr_str cfg - 2000) (yr_end cfg - 2000)]"
    by (rule upto_rec1) simp
  then have "all_bands cfg h agb
          = fc_str cfg h # (map (fc_band cfg h)
                [yr_str cfg - 2000 + 1..max (yr_str cfg - 2000) (yr_end cfg - 2000)]
              @ map (fl_band cfg h) [yr_str cfg - 2000 + 1..yr_end cfg - 2000]
              @ map (cb_band cfg h agb) [yr_str cfg - 2000..yr_end cfg - 2000]
              @ map (ce_band cfg h agb) [yr_str cfg - 2000 + 1..yr_end cfg - 2000])"
    by (simp only: all_bands_def list.map append_Cons fc_band_start)
  then show ?thesis
    by (simp add: select_def fc_str_name)
qed

lemma str_of_int_2005: "str_of_int 2005 = ''2005''" by code_simp

lemma example_all_bands:
  "all_bands example_config example_hansen example_agb =
     [fc_band example_config example_hansen 0, fc_band example_config example_hansen 1,
      fc_band example_config example_hansen 2,
      fl_band example_config example_hansen 1, fl_band example_config example_hansen 2,
      cb_band example_config example_hansen example_agb 0,
      cb_band example_config example_hansen example_agb 1,
      cb_band example_config example_hansen example_agb 2,
      ce_band example_config example_hansen example_agb 1,
      ce_band example_config example_hansen example_agb 2]"
  by (simp add: all_bands_def example_config_def upto_0_2 upto_1_2)

section \<open>The claims\<close>

text \<open>
  C1. For every year \<open>y\<close> from \<open>yr_str\<close> to \<open>yr_end\<close>, the year loop leaves a band
  \<open>fc<y>\<close> in the forest-cover stack. Its pixel is 1 exactly where the baseline band
  \<open>fc<yr_str>\<close> is defined and the loss year is either masked or lies outside
  \<open>(yr_str - 2000, y - 2000]\<close>; everywhere else it is masked. The baseline band of
  the stack is \<open>fc_str\<close>.
\<close>

theorem fc_year_characterisation:
  assumes "yr_str cfg \<le> y" and "y \<le> yr_end cfg"
  shows "\<exists>st fc.
           fc_stack cfg h = Inr st \<and>
           select st (''fc'' @ str_of_int (yr_str cfg)) = Inr (fc_str cfg h) \<and>
           select st (''fc'' @ str_of_int y) = Inr fc \<and>
           (\<forall>p. pixel fc p =
                  (if pixel (fc_str cfg h) p \<noteq> None \<and>
                      (lossyear h p = None \<or>
                       (\<exists>n. lossyear h p = Some n \<and>
                            \<not> (yr_str cfg - 2000 < n \<and> n \<le> y - 2000)))
                   then Some 1 else None))"
proof -
  have y': "y \<le> max (yr_str cfg) (yr_end cfg)" using assms by simp
  have s: "yr_str cfg \<le> max (yr_str cfg) (yr_end cfg)" by simp
  have base: "select (map (fc_band cfg h) [yr_str cfg - 2000..max (yr_str cfg - 2000) (yr_end cfg - 2000)])
           (''fc'' @ str_of_int (yr_str cfg)) = Inr (fc_str cfg h)"
    using select_fc_band[OF order_refl s, of h] by (simp add: fc_band_start)
  have px: "pixel (fc_band cfg h (y - 2000)) p =
                  (if pixel (fc_str cfg h) p \<noteq> None \<and>
                      (lossyear h p = None \<or>
                       (\<exists>n. lossyear h p = Some n \<and>
                            \<not> (yr_str cfg - 2000 < n \<and> n \<le> y - 2000)))
                   then Some 1 else None)" for p
    by (cases "lossyear h p") (auto simp: pixel_def fc_band_pixel)
  show ?thesis
    using base select_fc_band[OF assms(1) y', of h] px
    by (simp only: fc_stack_eq) blast
qed

theorem fc_year_characterisation_witness:
  "yr_str example_config \<le> 2001 \<and> 2001 \<le> yr_end example_config \<and>
   (\<exists>st fc. fc_stack example_config example_hansen = Inr st \<and>
      select st ''fc2001'' = Inr fc \<and>
      pixel (fc_str example_config example_hansen) (0, 1) = Some 1 \<and>
      pixel fc (0, 0) = Some 1 \<and> pixel fc (0, 1) = None \<and>
      pixel fc (1, 0) = Some 1 \<and> pixel fc (1, 1) = None)"
proof -
  have a: "yr_str example_config \<le> 2001" and b: "2001 \<le> yr_end example_config"
    by (simp_all add: example_config_def)
  from fc_year_characterisation[OF a b, of example_hansen]
  obtain st fc where st: "fc_stack example_config example_hansen = Inr st"
    and fc: "select st (''fc'' @ str_of_int 2001) = Inr fc"
    and px: "\<And>p. pixel fc p =
                  (if pixel (fc_str example_config example_hansen) p \<noteq> None \<and>
                      (lossyear example_hansen p = None \<or>
                       (\<exists>n. lossyear example_hansen p = Some n \<and>
                            \<not> (yr_str example_config - 2000 < n \<and> n \<le> 2001 - 2000)))
                   then Some 1 else None)"
    by blast
  have base: "pixel (fc_str example_config example_hansen) p =
     (if p = (1, 1) then None else Some 1)" for p
    by (simp add: pixel_def fc_str_pixel example_config_def example_hansen_def)
  have "pixel fc (0, 0) = Some 1" "pixel fc (0, 1) = None"
       "pixel fc (1, 0) = Some 1" "pixel fc (1, 1) = None"
    by (simp_all add: px base) (simp_all add: example_hansen_def example_config_def)
  with a b st fc base show ?thesis
    by (intro conjI exI[of _ st] exI[of _ fc]) (simp_all add: str_of_int_2001)
qed

text \<open>
  C2. The forest mask only shrinks. For years \<open>y1 \<le> y2\<close> of the range, a pixel
  defined in \<open>fc<y2>\<close> is defined in \<open>fc<y1>\<close>. With \<open>y1 = y2 - 1\<close> this is
  the step from one year to the next; read from right to left, a pixel masked in
  some year stays masked in every later year.
\<close>

theorem fc_monotone:
  assumes "yr_str cfg \<le> y1" and "y1 \<le> y2" and "y2 \<le> yr_end cfg"
  shows "\<exists>st fc1 fc2.
           fc_stack cfg h = Inr st \<and>
           select st (''fc'' @ str_of_int y1) = Inr fc1 \<and>
           select st (''fc'' @ str_of_int y2) = Inr fc2 \<and>
           (\<forall>p. pixel fc2 p \<noteq> None \<longrightarrow> pixel fc1 p \<noteq> None)"
proof -
  have a1: "yr_str cfg \<le> y1" "y1 \<le> max (yr_str cfg) (yr_end cfg)"
    and a2: "yr_str cfg \<le> y2" "y2 \<le> max (yr_str cfg) (yr_end cfg)"
    using assms by simp_all
  have "pixel (fc_band cfg h (y2 - 2000)) p \<noteq> None \<longrightarrow> pixel (fc_band cfg h (y1 - 2000)) p \<noteq> None"
    for p
    using assms(2) by (auto simp: pixel_def fc_band_pixel)
  then show ?thesis
    using select_fc_band[OF a1, of h] select_fc_band[OF a2, of h]
    by (simp only: fc_stack_eq) blast
qed

theorem fc_monotone_witness:
  "yr_str example_config \<le> 2000 \<and> (2000::int) \<le> 2001 \<and> 2001 \<le> yr_end example_config \<and>
   (\<exists>st fc1 fc2.
      fc_stack example_config example_hansen = Inr st \<and>
      select st ''fc2000'' = Inr fc1 \<and> select st ''fc2001'' = Inr fc2 \<and>
      (\<forall>p. pixel fc2 p \<noteq> None \<longrightarrow> pixel fc1 p \<noteq> None))"
proof -
  have a: "yr_str example_config \<le> 2000" and b: "(2000::int) \<le> 2001"
    and c: "2001 \<le> yr_end example_config"
    by (simp_all add: example_config_def)
  from fc_monotone[OF a b c, of example_hansen] a b c show ?thesis
    by (simp add: str_of_int_2000 str_of_int_2001)
qed

text \<open>
  C6. For every year \<open>y\<close> after \<open>yr_str\<close> up to \<open>yr_end\<close>, the band \<open>fl<y>\<close> is the
  baseline band \<open>fc_str\<close> masked to the pixels whose loss year equals \<open>y - 2000\<close>.
  A pixel that is masked in the baseline is masked in \<open>fl<y>\<close>, whatever its loss
  year.
\<close>

theorem fl_year_scoped_to_baseline:
  assumes "yr_str cfg < y" and "y \<le> yr_end cfg"
  shows "\<exists>st fl.
           fl_stack cfg h = Inr st \<and>
           select st (''fl'' @ str_of_int y) = Inr fl \<and>
           fl = rename (updateMask (fc_str cfg h) (eq (select_lossyear h) (y - 2000)))
                  (''fl'' @ str_of_int y) \<and>
           (\<forall>p. pixel fl p =
                  (if pixel (fc_str cfg h) p \<noteq> None \<and> lossyear h p = Some (y - 2000)
                   then Some 1 else None)) \<and>
           (\<forall>p. pixel (fc_str cfg h) p = None \<longrightarrow> pixel fl p = None)"
proof -
  let ?st = "map (fl_band cfg h) [yr_str cfg - 2000 + 1..yr_end cfg - 2000]"
  let ?fl = "fl_band cfg h (y - 2000)"
  show ?thesis
  proof (intro exI conjI)
    show "fl_stack cfg h = Inr ?st" by (rule fl_stack_eq)
    show "select ?st (''fl'' @ str_of_int y) = Inr ?fl" by (rule select_fl_band[OF assms])
    show "?fl = rename (updateMask (fc_str cfg h) (eq (select_lossyear h) (y - 2000)))
                  (''fl'' @ str_of_int y)"
      using fl_body[of cfg h "y - 2000"] by simp
    show "\<forall>p. pixel ?fl p =
                  (if pixel (fc_str cfg h) p \<noteq> None \<and> lossyear h p = Some (y - 2000)
                   then Some 1 else None)"
      by (simp add: pixel_def fl_band_def)
    show "\<forall>p. pixel (fc_str cfg h) p = None \<longrightarrow> pixel ?fl p = None"
      by (simp add: pixel_def fl_band_def)
  qed
qed

theorem fl_year_scoped_to_baseline_witness:
  "yr_str example_config < 2001 \<and> 2001 \<le> yr_end example_config \<and>
   (\<exists>st fl.
      fl_stack example_config scenario_hansen = Inr st \<and>
      select st ''fl2001'' = Inr fl \<and>
      pixel fl (0, 1) = Some 1 \<and> pixel fl (0, 0) = None \<and> pixel fl (1, 1) = None)"
proof -
  have a: "yr_str example_config < 2001" and b: "2001 \<le> yr_end example_config"
    by (simp_all add: example_config_def)
  from fl_year_scoped_to_baseline[OF a b, of scenario_hansen]
  obtain st fl where st: "fl_stack example_config scenario_hansen = Inr st"
    and fl: "select st (''fl'' @ str_of_int 2001) = Inr fl"
    and px: "\<And>p. pixel fl p =
                  (if pixel (fc_str example_config scenario_hansen) p \<noteq> None \<and>
                      lossyear scenario_hansen p = Some (2001 - 2000)
                   then Some 1 else None)"
    by blast
  have "pixel fl (0, 1) = Some 1" "pixel fl (0, 0) = None" "pixel fl (1, 1) = None"
    by (simp_all add: px) (simp_all add: pixel_def fc_str_pixel example_config_def scenario_hansen_def)
  with a b st fl show ?thesis
    by (intro conjI exI[of _ st] exI[of _ fl]) (simp_all add: str_of_int_2001)
qed

text \<open>
  C7. For two different years of the loss range, no pixel is defined in both
  \<open>fl<y1>\<close> and \<open>fl<y2>\<close>.
\<close>

theorem fl_years_exclusive:
  assumes "yr_str cfg < y1" and "y1 \<le> yr_end cfg"
    and "yr_str cfg < y2" and "y2 \<le> yr_end cfg"
    and "y1 \<noteq> y2"
  shows "\<exists>st fl1 fl2.
           fl_stack cfg h = Inr st \<and>
           select st (''fl'' @ str_of_int y1) = Inr fl1 \<and>
           select st (''fl'' @ str_of_int y2) = Inr fl2 \<and>
           (\<forall>p. \<not> (pixel fl1 p \<noteq> None \<and> pixel fl2 p \<noteq> None))"
proof -
  have "\<not> (pixel (fl_band cfg h (y1 - 2000)) p \<noteq> None \<and> pixel (fl_band cfg h (y2 - 2000)) p \<noteq> None)"
    for p
    using assms(5) by (auto simp: pixel_def fl_band_def)
  then show ?thesis
    using select_fl_band[OF assms(1,2), of h] select_fl_band[OF assms(3,4), of h]
    by (simp only: fl_stack_eq) blast
qed

theorem fl_years_exclusive_witness:
  "yr_str example_config < 2001 \<and> 2001 \<le> yr_end example_config \<and>
   yr_str example_config < 2002 \<and> 2002 \<le> yr_end example_config \<and> (2001::int) \<noteq> 2002 \<and>
   (\<exists>st fl1 fl2.
      fl_stack example_config example_hansen = Inr st \<and>
      select st ''fl2001'' = Inr fl1 \<and> select st ''fl2002'' = Inr fl2 \<and>
      (\<forall>p. \<not> (pixel fl1 p \<noteq> None \<and> pixel fl2 p \<noteq> None)))"
proof -
  have a: "yr_str example_config < 2001" and b: "2001 \<le> yr_end example_config"
    and c: "yr_str example_config < 2002" and d: "2002 \<le> yr_end example_config"
    and e: "(2001::int) \<noteq> 2002"
    by (simp_all add: example_config_def)
  from fl_years_exclusive[OF a b c d e, of example_hansen] a b c d show ?thesis
    by (simp add: str_of_int_2001 str_of_int_2002)
qed

text \<open>
  C8. For every year \<open>y\<close> from \<open>yr_str\<close> to \<open>yr_end\<close>, the band \<open>cb<y>\<close> is the total
  carbon image masked by \<open>fc<y> == 1\<close>: it is defined only where \<open>fc<y>\<close> is
  defined, and where it is defined it holds the pixel's total carbon.
\<close>

theorem cb_year_subset_of_fc:
  assumes "yr_str cfg \<le> y" and "y \<le> yr_end cfg"
  shows "\<exists>fcs cbs tc fc cb.
           fc_stack cfg h = Inr fcs \<and> cb_stack cfg h agb = Inr cbs \<and>
           tbcarbon agb = Inr tc \<and>
           select fcs (''fc'' @ str_of_int y) = Inr fc \<and>
           select cbs (''cb'' @ str_of_int y) = Inr cb \<and>
           cb = rename (updateMask tc (eq fc 1)) (''cb'' @ str_of_int y) \<and>
           (\<forall>p. pixel cb p = (if pixel fc p = Some 1 then pixel tc p else None)) \<and>
           (\<forall>p. pixel cb p \<noteq> None \<longrightarrow> pixel fc p \<noteq> None) \<and>
           (\<forall>p v. pixel cb p = Some v \<longrightarrow> pixel tc p = Some v)"
proof -
  let ?tc = "(fst agb, \<lambda>p. map_option tbcarbon_value (biomass agb p))"
  let ?fc = "fc_band cfg h (y - 2000)" and ?cb = "cb_band cfg h agb (y - 2000)"
  have y': "y \<le> max (yr_str cfg) (yr_end cfg)" using assms by simp
  show ?thesis
  proof (intro exI conjI)
    show "fc_stack cfg h = Inr (map (fc_band cfg h)
            [yr_str cfg - 2000..max (yr_str cfg - 2000) (yr_end cfg - 2000)])"
      by (rule fc_stack_eq)
    show "cb_stack cfg h agb = Inr (map (cb_band cfg h agb) [yr_str cfg - 2000..yr_end cfg - 2000])"
      by (rule cb_stack_eq)
    show "tbcarbon agb = Inr ?tc" by (rule tbcarbon_eq)
    show "select (map (fc_band cfg h)
            [yr_str cfg - 2000..max (yr_str cfg - 2000) (yr_end cfg - 2000)])
            (''fc'' @ str_of_int y) = Inr ?fc"
      by (rule select_fc_band[OF assms(1) y'])
    show "select (map (cb_band cfg h agb) [yr_str cfg - 2000..yr_end cfg - 2000])
            (''cb'' @ str_of_int y) = Inr ?cb"
      by (rule select_cb_band[OF assms])
    show "?cb = rename (updateMask ?tc (eq ?fc 1)) (''cb'' @ str_of_int y)"
      using cb_body[of agb cfg h "y - 2000"] by simp
    show "\<forall>p. pixel ?cb p = (if pixel ?fc p = Some 1 then pixel ?tc p else None)"
      by (simp add: pixel_def cb_band_def)
    show "\<forall>p. pixel ?cb p \<noteq> None \<longrightarrow> pixel ?fc p \<noteq> None"
      by (simp add: pixel_def cb_band_def)
    show "\<forall>p v. pixel ?cb p = Some v \<longrightarrow> pixel ?tc p = Some v"
      by (simp add: pixel_def cb_band_def)
  qed
qed

theorem cb_year_subset_of_fc_witness:
  "yr_str example_config \<le> 2001 \<and> 2001 \<le> yr_end example_config \<and>
   (\<exists>cbs cb.
      cb_stack example_config example_hansen example_agb = Inr cbs \<and>
      select cbs ''cb2001'' = Inr cb \<and>
      pixel cb (0, 0) = Some 0.7445 \<and> pixel cb (0, 1) = None \<and> pixel cb (1, 0) = None)"
proof -
  have a: "yr_str example_config \<le> 2001" and b: "2001 \<le> yr_end example_config"
    by (simp_all add: example_config_def)
  from cb_year_subset_of_fc[OF a b, of example_hansen example_agb]
  obtain fcs cbs tc fc cb where fcs: "fc_stack example_config example_hansen = Inr fcs"
    and cbs: "cb_stack example_config example_hansen example_agb = Inr cbs"
    and tc: "tbcarbon example_agb = Inr tc"
    and fc: "select fcs (''fc'' @ str_of_int 2001) = Inr fc"
    and cb: "select cbs (''cb'' @ str_of_int 2001) = Inr cb"
    and px: "\<And>p. pixel cb p = (if pixel fc p = Some 1 then pixel tc p else None)"
    by blast
  have fc': "fc = fc_band example_config example_hansen 1"
    using fc fcs select_fc_band[of example_config 2001 example_hansen] a b
    by (simp add: fc_stack_eq)
  have tc': "tc = (fst example_agb, \<lambda>p. map_option tbcarbon_value (biomass example_agb p))"
    using tc by (simp add: tbcarbon_eq)
  have "pixel cb (0, 0) = Some 0.7445" "pixel cb (0, 1) = None" "pixel cb (1, 0) = None"
    by (simp_all add: px)
      (simp_all add: fc' tc' pixel_def fc_band_def fc_str_pixel example_config_def
        example_hansen_def example_agb_def biomass_def tbcarbon_value_def bgb_value_def)
  with a b cbs cb show ?thesis
    by (intro conjI exI[of _ cbs] exI[of _ cb]) (simp_all add: str_of_int_2001)
qed

text \<open>
  C3. The baseline band on the scenario of the specification's section 8 (threshold
  30, start year 2000): the pixel with 50 percent tree cover and loss year 0, which
  never lost its forest, is masked in \<open>fc2000\<close>, because 0 fails the comparison
  \<open>lossyear >= 1\<close> and \<open>unmask(1)\<close> only fills pixels that are masked. The pixel
  with loss year 1 is kept.
\<close>

theorem baseline_drops_lossyear_zero:
  "tree_cover example_config = 30 \<and> yr_str example_config = 2000 \<and>
   treecover2000 scenario_hansen (0, 0) = Some 50 \<and>
   lossyear scenario_hansen (0, 0) = Some 0 \<and>
   pixel (fc_str example_config scenario_hansen) (0, 0) = None \<and>
   pixel (fc_str example_config scenario_hansen) (0, 1) = Some 1"
  by (simp add: pixel_def fc_str_def rename_def updateMask_def constant_image_def gte_def
      unmask_def select_treecover2000_def select_lossyear_def example_config_def
      scenario_hansen_def)

text \<open>
  C5. Where the above-ground biomass \<open>AGB\<close> is defined and not negative, the three
  expressions give \<open>BGB = 0.489 * AGB ^ 0.89\<close>, \<open>TotalCarbon = (AGB + BGB) * 0.5\<close>
  and \<open>TotalCO2 = TotalCarbon * 3.67\<close>; where it is masked, all three are masked.
  Where it is negative the power \<open>AGB ^ 0.89\<close> is no number, and none of the three
  has a value. The arithmetic is that of the real numbers.
\<close>

theorem biomass_formulas:
  "\<exists>b c d.
     bgb agb = Inr b \<and> tbcarbon agb = Inr c \<and> teco2 agb = Inr d \<and>
     (\<forall>p a. pixel agb p = Some a \<and> 0 \<le> a \<longrightarrow>
        pixel b p = Some (0.489 * a powr 0.89) \<and>
        pixel c p = Some ((a + 0.489 * a powr 0.89) * 0.5) \<and>
        pixel d p = Some ((a + 0.489 * a powr 0.89) * 0.5 * 3.67)) \<and>
     (\<forall>p. pixel c p =
            (case pixel agb p of
               None \<Rightarrow> None
             | Some a \<Rightarrow> (case pixel b p of None \<Rightarrow> None | Some g \<Rightarrow> Some ((a + g) * 0.5)))) \<and>
     (\<forall>p. pixel d p = map_option (\<lambda>t. t * 3.67) (pixel c p)) \<and>
     (\<forall>p. pixel agb p = None \<longrightarrow> pixel b p = None \<and> pixel c p = None \<and> pixel d p = None) \<and>
     (\<forall>p a. pixel agb p = Some a \<and> a < 0 \<longrightarrow>
        pixel b p = None \<and> pixel c p = None \<and> pixel d p = None)"
proof (intro exI conjI)
  let ?b = "(fst agb, \<lambda>p. map_option bgb_value (biomass agb p))"
  let ?c = "(fst agb, \<lambda>p. map_option tbcarbon_value (biomass agb p))"
  let ?d = "(fst agb, \<lambda>p. map_option teco2_value (biomass agb p))"
  show "bgb agb = Inr ?b" by (rule bgb_eq)
  show "tbcarbon agb = Inr ?c" by (rule tbcarbon_eq)
  show "teco2 agb = Inr ?d" by (rule teco2_eq)
  show "\<forall>p a. pixel agb p = Some a \<and> 0 \<le> a \<longrightarrow>
        pixel ?b p = Some (0.489 * a powr 0.89) \<and>
        pixel ?c p = Some ((a + 0.489 * a powr 0.89) * 0.5) \<and>
        pixel ?d p = Some ((a + 0.489 * a powr 0.89) * 0.5 * 3.67)"
    by (simp add: pixel_def biomass_def bgb_value_def tbcarbon_value_def teco2_value_def)
  show "\<forall>p. pixel ?c p =
            (case pixel agb p of
               None \<Rightarrow> None
             | Some a \<Rightarrow> (case pixel ?b p of None \<Rightarrow> None | Some g \<Rightarrow> Some ((a + g) * 0.5)))"
    by (simp add: pixel_def biomass_def tbcarbon_value_def split: option.splits)
  show "\<forall>p. pixel ?d p = map_option (\<lambda>t. t * 3.67) (pixel ?c p)"
    by (simp add: pixel_def teco2_value_def[abs_def] option.map_comp comp_def)
  show "\<forall>p. pixel agb p = None \<longrightarrow>
          pixel ?b p = None \<and> pixel ?c p = None \<and> pixel ?d p = None"
    by (simp add: pixel_def biomass_def)
  show "\<forall>p a. pixel agb p = Some a \<and> a < 0 \<longrightarrow>
          pixel ?b p = None \<and> pixel ?c p = None \<and> pixel ?d p = None"
    by (simp add: pixel_def biomass_def)
qed

theorem biomass_formulas_witness:
  "pixel example_agb (0, 0) = Some 1 \<and> (0::real) \<le> 1 \<and>
   pixel example_agb (1, 0) = None \<and>
   pixel negative_agb (0, 0) = Some (- 1) \<and> (- 1::real) < 0 \<and>
   (\<exists>b c d.
     bgb example_agb = Inr b \<and> tbcarbon example_agb = Inr c \<and> teco2 example_agb = Inr d \<and>
     pixel b (0, 0) = Some 0.489 \<and> pixel c (0, 0) = Some 0.7445 \<and>
     pixel d (0, 0) = Some 2.732315 \<and>
     pixel b (1, 0) = None \<and> pixel c (1, 0) = None \<and> pixel d (1, 0) = None) \<and>
   (\<exists>b c d.
     bgb negative_agb = Inr b \<and> tbcarbon negative_agb = Inr c \<and>
     teco2 negative_agb = Inr d \<and>
     pixel b (0, 0) = None \<and> pixel c (0, 0) = None \<and> pixel d (0, 0) = None)"
proof -
  have agb: "pixel example_agb (0, 0) = Some 1" "pixel example_agb (1, 0) = None"
    by (simp_all add: pixel_def example_agb_def)
  have neg: "pixel negative_agb (0, 0) = Some (- 1)"
    by (simp add: pixel_def negative_agb_def)
  from biomass_formulas[of example_agb]
  obtain b c d where r: "bgb example_agb = Inr b" "tbcarbon example_agb = Inr c"
      "teco2 example_agb = Inr d"
    and pos: "\<And>p a. pixel example_agb p = Some a \<and> 0 \<le> a \<Longrightarrow>
        pixel b p = Some (0.489 * a powr 0.89) \<and>
        pixel c p = Some ((a + 0.489 * a powr 0.89) * 0.5) \<and>
        pixel d p = Some ((a + 0.489 * a powr 0.89) * 0.5 * 3.67)"
    and und: "\<And>p. pixel example_agb p = None \<Longrightarrow>
        pixel b p = None \<and> pixel c p = None \<and> pixel d p = None"
    by blast
  from pos[of "(0, 0)" 1] agb(1)
  have v: "pixel b (0, 0) = Some 0.489" "pixel c (0, 0) = Some 0.7445"
      "pixel d (0, 0) = Some 2.732315"
    by simp_all
  from und[OF agb(2)]
  have u: "pixel b (1, 0) = None" "pixel c (1, 0) = None" "pixel d (1, 0) = None"
    by simp_all
  from biomass_formulas[of negative_agb]
  obtain b' c' d' where r': "bgb negative_agb = Inr b'" "tbcarbon negative_agb = Inr c'"
      "teco2 negative_agb = Inr d'"
    and ng: "\<And>p a. pixel negative_agb p = Some a \<and> a < 0 \<Longrightarrow>
        pixel b' p = None \<and> pixel c' p = None \<and> pixel d' p = None"
    by blast
  from ng[of "(0, 0)" "- 1"] neg
  have n: "pixel b' (0, 0) = None" "pixel c' (0, 0) = None" "pixel d' (0, 0) = None"
    by simp_all
  have one: "\<exists>b c d.
     bgb example_agb = Inr b \<and> tbcarbon example_agb = Inr c \<and> teco2 example_agb = Inr d \<and>
     pixel b (0, 0) = Some 0.489 \<and> pixel c (0, 0) = Some 0.7445 \<and>
     pixel d (0, 0) = Some 2.732315 \<and>
     pixel b (1, 0) = None \<and> pixel c (1, 0) = None \<and> pixel d (1, 0) = None"
    by (intro conjI exI[of _ b] exI[of _ c] exI[of _ d]) (rule r v u)+
  have two: "\<exists>b c d.
     bgb negative_agb = Inr b \<and> tbcarbon negative_agb = Inr c \<and>
     teco2 negative_agb = Inr d \<and>
     pixel b (0, 0) = None \<and> pixel c (0, 0) = None \<and> pixel d (0, 0) = None"
    by (intro conjI exI[of _ b'] exI[of _ c'] exI[of _ d']) (rule r' n)+
  show ?thesis
    using agb neg one two by simp
qed

text \<open>
  C9. The image handed to the reducer is \<open>areas\<close>. It has the bands of the assembled
  image, the \<open>fc\<close> and \<open>fl\<close> indicators as well as the \<open>cb\<close> and \<open>ce\<close> densities,
  under the same names, and every one of them is the band of the assembled image
  multiplied, pixel by pixel, by the pixel area in square metres over 10000.
\<close>

theorem hectare_weighting_uniform:
  "\<exists>out ar.
     output_image cfg h agb = Inr out \<and> areas cfg h agb pixelArea = Inr ar \<and>
     script cfg sa h agb pixelArea = Inr (reduceRegions ar (map addArea sa)) \<and>
     map fst out =
       map (\<lambda>k. ''fc'' @ str_of_int (k + 2000))
         [yr_str cfg - 2000..max (yr_str cfg - 2000) (yr_end cfg - 2000)]
       @ map (\<lambda>k. ''fl'' @ str_of_int (k + 2000)) [yr_str cfg - 2000 + 1..yr_end cfg - 2000]
       @ map (\<lambda>k. ''cb'' @ str_of_int (k + 2000)) [yr_str cfg - 2000..yr_end cfg - 2000]
       @ map (\<lambda>k. ''ce'' @ str_of_int (k + 2000)) [yr_str cfg - 2000 + 1..yr_end cfg - 2000] \<and>
     map fst ar = map fst out \<and>
     (\<forall>i<length out. \<forall>p.
        pixel (ar ! i) p = map_option (\<lambda>v. v * (pixelArea p / 10000)) (pixel (out ! i) p))"
proof (intro exI conjI)
  let ?out = "all_bands cfg h agb"
  let ?ar = "multiply ?out (divide (pixelArea_image pixelArea) 10000)"
  show "output_image cfg h agb = Inr ?out" by (rule output_image_eq)
  show "areas cfg h agb pixelArea = Inr ?ar" by (rule areas_eq)
  show "script cfg sa h agb pixelArea = Inr (reduceRegions ?ar (map addArea sa))"
    by (rule script_eq)
  show "map fst ?out =
       map (\<lambda>k. ''fc'' @ str_of_int (k + 2000))
         [yr_str cfg - 2000..max (yr_str cfg - 2000) (yr_end cfg - 2000)]
       @ map (\<lambda>k. ''fl'' @ str_of_int (k + 2000)) [yr_str cfg - 2000 + 1..yr_end cfg - 2000]
       @ map (\<lambda>k. ''cb'' @ str_of_int (k + 2000)) [yr_str cfg - 2000..yr_end cfg - 2000]
       @ map (\<lambda>k. ''ce'' @ str_of_int (k + 2000)) [yr_str cfg - 2000 + 1..yr_end cfg - 2000]"
    by (rule all_bands_names)
  show "map fst ?ar = map fst ?out" by (rule names_multiply)
  show "\<forall>i<length ?out. \<forall>p.
        pixel (?ar ! i) p = map_option (\<lambda>v. v * (pixelArea p / 10000)) (pixel (?out ! i) p)"
    by (simp add: nth_multiply pixel_def divide_def pixelArea_image_def split: option.splits)
qed

theorem hectare_weighting_uniform_witness:
  "\<exists>out ar.
     output_image example_config example_hansen example_agb = Inr out \<and>
     areas example_config example_hansen example_agb example_pixelArea = Inr ar \<and>
     length out = 10 \<and>
     map fst ar = [''fc2000'', ''fc2001'', ''fc2002'', ''fl2001'', ''fl2002'',
                   ''cb2000'', ''cb2001'', ''cb2002'', ''ce2001'', ''ce2002''] \<and>
     pixel (out ! 2) (0, 0) = Some 1 \<and> pixel (ar ! 2) (0, 0) = Some 0.09 \<and>
     pixel (out ! 3) (0, 1) = Some 1 \<and> pixel (ar ! 3) (0, 1) = Some 0.09 \<and>
     pixel (out ! 6) (0, 0) = Some 0.7445 \<and> pixel (ar ! 6) (0, 0) = Some 0.067005 \<and>
     pixel (out ! 8) (0, 1) = Some 2.732315 \<and> pixel (ar ! 8) (0, 1) = Some 0.24590835"
proof -
  from hectare_weighting_uniform[of example_config example_hansen example_agb example_pixelArea]
  obtain out ar where out: "output_image example_config example_hansen example_agb = Inr out"
    and ar: "areas example_config example_hansen example_agb example_pixelArea = Inr ar"
    and names: "map fst ar = map fst out"
    and px: "\<And>i p. i < length out \<Longrightarrow>
        pixel (ar ! i) p = map_option (\<lambda>v. v * (example_pixelArea p / 10000)) (pixel (out ! i) p)"
    by blast
  have o: "out = all_bands example_config example_hansen example_agb"
    using out by (simp add: output_image_eq)
  have len: "length out = 10" by (simp add: o example_all_bands)
  have n: "map fst ar = [''fc2000'', ''fc2001'', ''fc2002'', ''fl2001'', ''fl2002'',
                   ''cb2000'', ''cb2001'', ''cb2002'', ''ce2001'', ''ce2002'']"
    by (simp add: names o example_all_bands fc_band_def fl_band_def cb_band_def ce_band_def
        str_of_int_2000 str_of_int_2001 str_of_int_2002)
  have v: "pixel (out ! 2) (0, 0) = Some 1" "pixel (out ! 3) (0, 1) = Some 1"
      "pixel (out ! 6) (0, 0) = Some 0.7445" "pixel (out ! 8) (0, 1) = Some 2.732315"
    unfolding o example_all_bands
    by (simp_all add: pixel_def fc_band_def fl_band_def cb_band_def
        ce_band_def fc_str_pixel example_config_def example_hansen_def example_agb_def
        biomass_def teco2_value_def tbcarbon_value_def bgb_value_def)
  have w: "pixel (ar ! 2) (0, 0) = Some 0.09" "pixel (ar ! 3) (0, 1) = Some 0.09"
      "pixel (ar ! 6) (0, 0) = Some 0.067005" "pixel (ar ! 8) (0, 1) = Some 0.24590835"
    by (simp_all add: px len v example_pixelArea_def)
  show ?thesis
    by (intro exI[of _ out] exI[of _ ar] conjI) (rule out ar len n v w)+
qed

text \<open>
  C10. The statistics are computed over \<open>sa_area\<close>, the regions mapped with the first
  \<open>addArea\<close>. Every row has the property \<open>ha\<close>, the geometry's area times 0.0001.
  The second \<open>addArea\<close> leaves no trace: the property \<open>area_ha\<close> of a row is what the
  input region had under that name.
\<close>

theorem stats_rows_carry_ha:
  "\<exists>ar rows.
     areas cfg h agb pixelArea = Inr ar \<and>
     script cfg sa h agb pixelArea = Inr rows \<and>
     rows = reduceRegions ar (map addArea sa) \<and>
     length rows = length sa \<and>
     (\<forall>i<length sa.
        get_property (rows ! i) ''ha'' = Some (PNum (geometry_area (sa ! i) * 0.0001)) \<and>
        get_property (rows ! i) ''area_ha'' = get_property (sa ! i) ''area_ha'')"
proof (intro exI conjI)
  let ?ar = "multiply (all_bands cfg h agb) (divide (pixelArea_image pixelArea) 10000)"
  let ?rows = "reduceRegions ?ar (map addArea sa)"
  have ha: "''ha'' \<notin> fst ` set ?ar" and area_ha: "''area_ha'' \<notin> fst ` set ?ar"
    using ha_not_a_band[of cfg h agb] area_ha_not_a_band[of cfg h agb]
      names_multiply[of "all_bands cfg h agb" "divide (pixelArea_image pixelArea) 10000"]
    by (metis set_map)+
  show "areas cfg h agb pixelArea = Inr ?ar" by (rule areas_eq)
  show "script cfg sa h agb pixelArea = Inr ?rows" by (rule script_eq)
  show "?rows = reduceRegions ?ar (map addArea sa)" by (rule refl)
  show "length ?rows = length sa" by (simp add: length_reduceRegions)
  show "\<forall>i<length sa.
        get_property (?rows ! i) ''ha'' = Some (PNum (geometry_area (sa ! i) * 0.0001)) \<and>
        get_property (?rows ! i) ''area_ha'' = get_property (sa ! i) ''area_ha''"
    using ha area_ha
    by (simp add: get_property_reduceRegions addArea_def get_set_property)
qed

theorem stats_rows_carry_ha_witness:
  "\<exists>rows.
     script example_config example_sa example_hansen example_agb example_pixelArea = Inr rows \<and>
     length rows = 1 \<and>
     get_property (rows ! 0) ''ha'' = Some (PNum 0.36) \<and>
     get_property (rows ! 0) ''area_ha'' = None"
proof -
  from stats_rows_carry_ha[of example_config example_hansen example_agb example_pixelArea example_sa]
  obtain rows where r: "script example_config example_sa example_hansen example_agb example_pixelArea = Inr rows"
    and len: "length rows = length example_sa"
    and p: "\<And>i. i < length example_sa \<Longrightarrow>
        get_property (rows ! i) ''ha'' = Some (PNum (geometry_area (example_sa ! i) * 0.0001)) \<and>
        get_property (rows ! i) ''area_ha'' = get_property (example_sa ! i) ''area_ha''"
    by blast
  have l: "length rows = 1" using len by (simp add: example_sa_def)
  have "0 < length example_sa" by (simp add: example_sa_def)
  from p[OF this] have v: "get_property (rows ! 0) ''ha'' = Some (PNum 0.36)"
      "get_property (rows ! 0) ''area_ha'' = None"
    by (simp_all add: example_sa_def get_property_def)
  show ?thesis
    by (intro exI[of _ rows] conjI) (rule r l v)+
qed

text \<open>
  C4, as the claim states it, fails: nothing in the script checks the settings. With
  a threshold of 150 and the end year 1990 before the start year 2005, the raster
  stages do not reject the configuration: no loop body runs, and the assembled image
  is the baseline band alone, masked at a pixel of 50 percent tree cover because 50
  is below 150.
\<close>

theorem config_errors_rejected_counterexample:
  "tree_cover invalid_config = 150 \<and> yr_str invalid_config = 2005 \<and>
   yr_end invalid_config = 1990 \<and>
   fc_stack invalid_config example_hansen = Inr [fc_str invalid_config example_hansen] \<and>
   output_image invalid_config example_hansen example_agb
     = Inr [fc_str invalid_config example_hansen] \<and>
   treecover2000 example_hansen (0, 0) = Some 50 \<and>
   pixel (fc_str invalid_config example_hansen) (0, 0) = None"
proof -
  have lo: "(yr_end invalid_config - 2000) < (yr_str invalid_config - 2000 + 1)"
    and lo': "(yr_end invalid_config - 2000) < (yr_str invalid_config - 2000)"
    by (simp_all add: invalid_config_def)
  have fl: "fl_stack invalid_config example_hansen = Inr []"
    unfolding fl_stack_def by (rule for_loop_done[OF lo])
  have fc: "fc_stack invalid_config example_hansen = Inr [fc_str invalid_config example_hansen]"
    unfolding fc_stack_def fl and_then_def by (simp only: sum.case for_loop_done[OF lo])
  have cb: "cb_stack invalid_config example_hansen example_agb = Inr []"
    unfolding cb_stack_def fc and_then_def
    by (simp only: tbcarbon_eq sum.case for_loop_done[OF lo'])
  have ce: "ce_stack invalid_config example_hansen example_agb = Inr []"
    unfolding ce_stack_def fl and_then_def
    by (simp only: teco2_eq sum.case for_loop_done[OF lo])
  have out: "output_image invalid_config example_hansen example_agb
     = Inr [fc_str invalid_config example_hansen]"
    by (simp add: output_image_def fc fl cb ce and_then_def addBands_def)
  have px: "treecover2000 example_hansen (0, 0) = Some 50"
      "pixel (fc_str invalid_config example_hansen) (0, 0) = None"
    by (simp_all add: pixel_def fc_str_def rename_def updateMask_def constant_image_def gte_def
        unmask_def select_treecover2000_def select_lossyear_def invalid_config_def
        example_hansen_def)
  with fc out show ?thesis by (simp add: invalid_config_def)
qed

text \<open>
  C4, amended. Configuration errors are not rejected. For every configuration whose
  years are whole numbers of magnitude at most \<open>2 ^ 52\<close> (where the script's number
  arithmetic is exact), whatever the years and the threshold are, the raster stages
  build the four stacks and the assembled image, and that image holds the baseline
  band \<open>fc<yr_str>\<close> computed from the settings as they are.
\<close>

theorem no_config_validation:
  assumes "\<bar>yr_str cfg\<bar> \<le> 2 ^ 52" and "\<bar>yr_end cfg\<bar> \<le> 2 ^ 52"
  shows "\<exists>fls fcs cbs ces out.
           fl_stack cfg h = Inr fls \<and> fc_stack cfg h = Inr fcs \<and>
           cb_stack cfg h agb = Inr cbs \<and> ce_stack cfg h agb = Inr ces \<and>
           output_image cfg h agb = Inr out \<and>
           select out (''fc'' @ str_of_int (yr_str cfg)) = Inr (fc_str cfg h)"
proof (intro exI conjI)
  show "fl_stack cfg h = Inr (map (fl_band cfg h) [yr_str cfg - 2000 + 1..yr_end cfg - 2000])"
    by (rule fl_stack_eq)
  show "fc_stack cfg h = Inr (map (fc_band cfg h)
          [yr_str cfg - 2000..max (yr_str cfg - 2000) (yr_end cfg - 2000)])"
    by (rule fc_stack_eq)
  show "cb_stack cfg h agb = Inr (map (cb_band cfg h agb) [yr_str cfg - 2000..yr_end cfg - 2000])"
    by (rule cb_stack_eq)
  show "ce_stack cfg h agb = Inr (map (ce_band cfg h agb)
          [yr_str cfg - 2000 + 1..yr_end cfg - 2000])"
    by (rule ce_stack_eq)
  show "output_image cfg h agb = Inr (all_bands cfg h agb)"
    by (rule output_image_eq)
  show "select (all_bands cfg h agb) (''fc'' @ str_of_int (yr_str cfg)) = Inr (fc_str cfg h)"
    by (rule select_baseline_band)
qed

theorem no_config_validation_witness:
  "\<bar>yr_str invalid_config\<bar> \<le> 2 ^ 52 \<and> \<bar>yr_end invalid_config\<bar> \<le> 2 ^ 52 \<and>
   (\<exists>fls fcs cbs ces out.
      fl_stack invalid_config example_hansen = Inr fls \<and>
      fc_stack invalid_config example_hansen = Inr fcs \<and>
      cb_stack invalid_config example_hansen example_agb = Inr cbs \<and>
      ce_stack invalid_config example_hansen example_agb = Inr ces \<and>
      output_image invalid_config example_hansen example_agb = Inr out \<and>
      select out ''fc2005'' = Inr (fc_str invalid_config example_hansen))"
proof -
  have a: "\<bar>yr_str invalid_config\<bar> \<le> 2 ^ 52" and b: "\<bar>yr_end invalid_config\<bar> \<le> 2 ^ 52"
    by (simp_all add: invalid_config_def)
  have y: "str_of_int (yr_str invalid_config) = ''2005''"
    by (simp add: invalid_config_def str_of_int_2005)
  from no_config_validation[OF a b, of example_hansen example_agb] a b show ?thesis
    by (simp add: y)
qed

end
